theory Spec2Isabelle
  imports Complex_Main "HOL-Library.Char_ord" "HOL-Library.List_Lexorder"
begin

section \<open>Strings and the two patterns of the sheet parser\<close>

text \<open>
  Python strings are modelled as \<^typ>\<open>string\<close>, one \<^typ>\<open>char\<close> per code point, so the
  model covers the code points below 256. In that range the class \<^verbatim>\<open>\d\<close> of Python's
  \<^verbatim>\<open>re\<close> holds exactly the ten ASCII digits, and \<^verbatim>\<open>str.lower\<close> maps \<^verbatim>\<open>A-Z\<close> to
  \<^verbatim>\<open>a-z\<close>; the lower-case form of any other character is not an ASCII character, so
  leaving it unchanged does not affect a match against the ASCII patterns used below.
\<close>

definition is_digit :: "char \<Rightarrow> bool" where
  "is_digit c = (c \<in> set ''0123456789'')"

definition lower_char :: "char \<Rightarrow> char" where
  "lower_char c =
     (case map_of (zip ''ABCDEFGHIJKLMNOPQRSTUVWXYZ'' ''abcdefghijklmnopqrstuvwxyz'') c of
        Some d \<Rightarrow> d
      | None \<Rightarrow> c)"

definition str_lower :: "string \<Rightarrow> string" where
  "str_lower s = map lower_char s"

definition startswith :: "string \<Rightarrow> string \<Rightarrow> bool" where
  "startswith s p = (take (length p) s = p)"

definition endswith :: "string \<Rightarrow> string \<Rightarrow> bool" where
  "endswith s p = (length p \<le> length s \<and> drop (length s - length p) s = p)"

text \<open>\<^verbatim>\<open>str.contains(sub)\<close> for a literal without regex metacharacters: substring search.\<close>

fun str_contains :: "string \<Rightarrow> string \<Rightarrow> bool" where
  "str_contains [] sub = (sub = [])"
| "str_contains (c # cs) sub = (startswith (c # cs) sub \<or> str_contains cs sub)"

text \<open>
  \<^verbatim>\<open>str.fullmatch(word + r"\d+")\<close>: the whole string is the word followed by one or more
  digits. The source uses it with the word \<^verbatim>\<open>STUDY\<close> (lines 101 and 108), without any
  flag and on the untrimmed text.
\<close>

definition fullmatch_word_digits :: "string \<Rightarrow> string \<Rightarrow> bool" where
  "fullmatch_word_digits w s =
     (startswith s w \<and> drop (length w) s \<noteq> [] \<and> list_all is_digit (drop (length w) s))"

text \<open>
  \<^verbatim>\<open>str.contains(r"^study\d+$", regex=True)\<close> is \<^verbatim>\<open>re.search\<close>: \<^verbatim>\<open>^\<close> anchors at the
  start, and \<^verbatim>\<open>$\<close> matches at the end of the string or just before one final newline.
\<close>

definition search_study :: "string \<Rightarrow> bool" where
  "search_study s =
     fullmatch_word_digits ''study''
       (if s \<noteq> [] \<and> last s = CHR 0x0A then butlast s else s)"

section \<open>Cells and grids\<close>

text \<open>
  The argument of the extractor is the frame that \<^verbatim>\<open>pd.read_excel(..., header=None)\<close>
  returns: a grid of cell values, each a text, a number, a boolean or an empty cell
  (\<^verbatim>\<open>NaN\<close>). Numbers are modelled as integers; binary floating point, and with it
  rounding and infinities, is outside the model.
\<close>

datatype cell = CStr string | CNum int | CBool bool | CMissing

type_synonym grid = "cell list list"

function show_nat :: "nat \<Rightarrow> string" where
  "show_nat n =
     (if n < 10 then [''0123456789'' ! n]
      else show_nat (n div 10) @ [''0123456789'' ! (n mod 10)])"
  by pat_completeness auto
termination
  by (relation "measure (\<lambda>n. n)") auto

declare show_nat.simps [simp del]

definition show_int :: "int \<Rightarrow> string" where
  "show_int i = (if i < 0 then CHR ''-'' # show_nat (nat (- i)) else show_nat (nat i))"

text \<open>
  \<^verbatim>\<open>astype(str)\<close> on one cell: Python's \<^verbatim>\<open>str\<close> of the value. Text is unchanged; an
  empty cell reads \<^verbatim>\<open>nan\<close>. A number reads as its decimal digits; in a column or row of
  floats pandas prints it with a decimal point, and either way its text holds no letter
  of the two patterns.
\<close>

fun astype_str :: "cell \<Rightarrow> string" where
  "astype_str (CStr s) = s"
| "astype_str (CNum i) = show_int i"
| "astype_str (CBool b) = (if b then ''True'' else ''False'')"
| "astype_str CMissing = ''nan''"

text \<open>
  A data frame is rectangular: its width is that of the longest row, and a row that is
  shorter reads as empty cells beyond its end.
\<close>

definition ncols :: "grid \<Rightarrow> nat" where
  "ncols g = fold max (map length g) 0"

definition cell_at :: "cell list \<Rightarrow> nat \<Rightarrow> cell" where
  "cell_at r j = (if j < length r then r ! j else CMissing)"

definition df_empty :: "grid \<Rightarrow> bool" where
  "df_empty g = (g = [] \<or> ncols g = 0)"

section \<open>The sheet extractor\<close>

record effort_row =
  study_id :: string
  hours :: int
  sheet :: string

text \<open>Lines 88 to 95: the scan for the first header row or first study row.\<close>

definition row_str :: "cell list \<Rightarrow> string list" where
  "row_str r = map (\<lambda>c. str_lower (astype_str c)) r"

definition has_header_token :: "cell list \<Rightarrow> bool" where
  "has_header_token r = list_ex (\<lambda>s. str_contains s ''study id'') (row_str r)"

definition has_study_cell :: "cell list \<Rightarrow> bool" where
  "has_study_cell r = list_ex search_study (row_str r)"

fun scan_rows :: "grid \<Rightarrow> nat \<Rightarrow> nat option" where
  "scan_rows [] idx = None"
| "scan_rows (r # rs) idx =
     (if has_header_token r then Some (idx + 1)
      else if has_study_cell r then Some idx
      else scan_rows rs (idx + 1))"

definition data_start :: "grid \<Rightarrow> nat" where
  "data_start g = (case scan_rows g 0 of None \<Rightarrow> 0 | Some k \<Rightarrow> k)"

text \<open>Lines 99 to 103 and 108: the study column and the mask of valid rows.\<close>

definition is_study_id :: "cell \<Rightarrow> bool" where
  "is_study_id c = fullmatch_word_digits ''STUDY'' (astype_str c)"

definition col_has_study :: "grid \<Rightarrow> nat \<Rightarrow> bool" where
  "col_has_study d j = list_ex (\<lambda>r. is_study_id (cell_at r j)) d"

definition find_study_col :: "nat \<Rightarrow> grid \<Rightarrow> nat option" where
  "find_study_col n d = find (col_has_study d) [0..<n]"

text \<open>
  Line 113: \<^verbatim>\<open>select_dtypes(include="number")\<close> keeps the columns whose dtype is numeric.
  The dtype of a column is inferred from all of its values when the frame is built, and
  \<^verbatim>\<open>iloc\<close> and \<^verbatim>\<open>reset_index\<close> keep it: the column is numeric when each of its
  values in the whole sheet is a number or empty, and has dtype \<^verbatim>\<open>object\<close> (or
  \<^verbatim>\<open>bool\<close>) otherwise.
\<close>

fun is_number_or_missing :: "cell \<Rightarrow> bool" where
  "is_number_or_missing (CNum i) = True"
| "is_number_or_missing CMissing = True"
| "is_number_or_missing (CStr s) = False"
| "is_number_or_missing (CBool b) = False"

definition is_numeric_col :: "grid \<Rightarrow> nat \<Rightarrow> bool" where
  "is_numeric_col g j = list_all (\<lambda>r. is_number_or_missing (cell_at r j)) g"

definition numeric_cols :: "grid \<Rightarrow> nat list" where
  "numeric_cols g = filter (is_numeric_col g) [0..<ncols g]"

text \<open>Line 114: \<^verbatim>\<open>sum(axis=1)\<close> skips empty cells.\<close>

fun cell_num :: "cell \<Rightarrow> int" where
  "cell_num (CNum i) = i"
| "cell_num c = 0"

definition row_hours :: "nat list \<Rightarrow> cell list \<Rightarrow> int" where
  "row_hours cols r = sum_list (map (\<lambda>j. cell_num (cell_at r j)) cols)"

definition emit_row :: "grid \<Rightarrow> nat \<Rightarrow> string \<Rightarrow> cell list \<Rightarrow> effort_row" where
  "emit_row g study_col sheet_name r =
     \<lparr>study_id = astype_str (cell_at r study_col),
      hours = row_hours (numeric_cols g) r,
      sheet = sheet_name\<rparr>"

text \<open>
  The function of lines 83 to 117. Every result has the columns
  \<^verbatim>\<open>Study ID\<close>, \<^verbatim>\<open>Hours\<close> and \<^verbatim>\<open>Sheet\<close>; the model returns its rows. The test of line 109
  repeats that of line 101 and never fires. A cell that passes the test of line 108 is a
  text, so \<^const>\<open>astype_str\<close> returns the value that line 112 takes.
\<close>

definition extract_study_hours_from_sheet :: "grid \<Rightarrow> string \<Rightarrow> effort_row list" where
  "extract_study_hours_from_sheet df_sheet sheet_name =
     (if df_empty df_sheet then []
      else
        let df_data = drop (data_start df_sheet) df_sheet in
        case find_study_col (ncols df_sheet) df_data of
          None \<Rightarrow> []
        | Some study_col \<Rightarrow>
            map (emit_row df_sheet study_col sheet_name)
              (filter (\<lambda>r. is_study_id (cell_at r study_col)) df_data))"

section \<open>The directory: registry file, workbooks, report files\<close>

text \<open>
  \<^verbatim>\<open>DATA_FOLDER\<close> is the working directory, which also holds \<^verbatim>\<open>STATE_FILE\<close>. A directory
  is its list of entries, each name once. A file is a JSON document (as the value
  \<^verbatim>\<open>json.load\<close> returns, numbers being integers), a workbook that opens (its sheets in
  order, each with its grid), or anything else: an entry that neither parses as JSON nor
  opens as a workbook.
\<close>

datatype json =
  JNull | JBool bool | JNum int | JStr string | JArr "json list" | JObj "(string \<times> json) list"

datatype file_content = JsonFile json | Workbook "(string \<times> grid) list" | OtherFile

type_synonym directory = "(string \<times> file_content) list"

definition STATE_FILE :: string where
  "STATE_FILE = ''known_employees.json''"

definition DATA_FILE_EXTENSION :: string where
  "DATA_FILE_EXTENSION = ''.xlsx''"

text \<open>
  The members of a Python set built from JSON values: \<^verbatim>\<open>None\<close>, numbers and strings.
  \<^verbatim>\<open>True\<close> and \<^verbatim>\<open>False\<close> are equal to 1 and 0 and hash alike; lists and dicts are not
  hashable.
\<close>

datatype pykey = KNone | KNum int | KStr string

fun to_key :: "json \<Rightarrow> pykey option" where
  "to_key JNull = Some KNone"
| "to_key (JBool b) = Some (KNum (if b then 1 else 0))"
| "to_key (JNum i) = Some (KNum i)"
| "to_key (JStr s) = Some (KStr s)"
| "to_key (JArr xs) = None"
| "to_key (JObj kvs) = None"

text \<open>
  \<^verbatim>\<open>set(v)\<close>: the elements of a list, the characters of a string, the keys of a dict;
  \<^verbatim>\<open>None\<close> when it raises \<^verbatim>\<open>TypeError\<close>.
\<close>

fun py_set :: "json \<Rightarrow> pykey set option" where
  "py_set (JArr xs) =
     (if list_all (\<lambda>x. to_key x \<noteq> None) xs then Some (set (map (\<lambda>x. the (to_key x)) xs))
      else None)"
| "py_set (JStr s) = Some (set (map (\<lambda>c. KStr [c]) s))"
| "py_set (JObj kvs) = Some (set (map (\<lambda>kv. KStr (fst kv)) kvs))"
| "py_set JNull = None"
| "py_set (JBool b) = None"
| "py_set (JNum i) = None"

text \<open>Lines 23 to 30. Every exception gives the empty set.\<close>

definition load_known_employees :: "directory \<Rightarrow> pykey set" where
  "load_known_employees dir =
     (case map_of dir STATE_FILE of
        None \<Rightarrow> {}
      | Some (JsonFile (JObj kvs)) \<Rightarrow>
          (case py_set (case map_of kvs ''employees'' of None \<Rightarrow> JArr [] | Some v \<Rightarrow> v) of
             None \<Rightarrow> {}
           | Some S \<Rightarrow> S)
      | Some _ \<Rightarrow> {})"

text \<open>Lines 32 to 34: the file is overwritten with the sorted list.\<close>

definition save_known_employees :: "string set \<Rightarrow> directory \<Rightarrow> directory" where
  "save_known_employees employees dir =
     (STATE_FILE, JsonFile (JObj [(''employees'', JArr (map JStr (sorted_list_of_set employees)))]))
       # filter (\<lambda>entry. fst entry \<noteq> STATE_FILE) dir"

text \<open>
  \<^verbatim>\<open>os.path.splitext(f)[0]\<close> for a name that ends in a dot and four more characters: the
  name without them, unless only dots come before.
\<close>

definition splitext_root :: "string \<Rightarrow> string" where
  "splitext_root f =
     (let stem = take (length f - 5) f
      in if list_all (\<lambda>c. c = CHR ''.'') stem then f else stem)"

text \<open>Lines 36 to 40.\<close>

definition get_current_files :: "directory \<Rightarrow> string set" where
  "get_current_files dir =
     set (map splitext_root
       (filter (\<lambda>f. endswith (str_lower f) DATA_FILE_EXTENSION \<and> \<not> startswith (str_lower f) ''effort'')
          (map fst dir)))"

text \<open>Lines 80 and 81.\<close>

definition get_employee_files :: "directory \<Rightarrow> string list" where
  "get_employee_files dir =
     sorted_list_of_set
       (Set.filter (\<lambda>s. KStr s \<in> load_known_employees dir) (get_current_files dir))"

section \<open>Employee loader and aggregator\<close>

text \<open>A data frame: its column labels and its rows. \<^verbatim>\<open>pd.DataFrame()\<close> has neither.\<close>

record 'r frame =
  frame_columns :: "string list"
  frame_rows :: "'r list"

definition empty_frame :: "'r frame" where
  "empty_frame = \<lparr>frame_columns = [], frame_rows = []\<rparr>"

record detail_row =
  d_study_id :: string
  d_hours :: int
  d_sheet :: string
  d_employee :: string

definition with_employee :: "string \<Rightarrow> effort_row \<Rightarrow> detail_row" where
  "with_employee e r =
     \<lparr>d_study_id = study_id r, d_hours = hours r, d_sheet = sheet r, d_employee = e\<rparr>"

definition metadata_sheet :: "string \<Rightarrow> bool" where
  "metadata_sheet sheet_name = (str_lower sheet_name \<in> set [''cover'', ''summary'', ''notes'', ''info''])"

text \<open>Lines 126 to 135: the non-empty extractions, in sheet order.\<close>

definition cleaned_sheets :: "(string \<times> grid) list \<Rightarrow> effort_row list list" where
  "cleaned_sheets sheets =
     filter (\<lambda>cleaned. cleaned \<noteq> [])
       (map (\<lambda>s. extract_study_hours_from_sheet (snd s) (fst s))
          (filter (\<lambda>s. \<not> metadata_sheet (fst s)) sheets))"

text \<open>
  Lines 119 to 140, with \<^verbatim>\<open>raw_sheets=True\<close>: the frame and the sheet count. A file that
  is absent, or that does not open as a workbook, gives the empty frame and 0.
\<close>

definition load_employee_data :: "directory \<Rightarrow> string \<Rightarrow> effort_row frame \<times> nat" where
  "load_employee_data dir employee =
     (case map_of dir (employee @ DATA_FILE_EXTENSION) of
        None \<Rightarrow> (empty_frame, 0)
      | Some (Workbook sheets) \<Rightarrow>
          (let all_data = cleaned_sheets sheets
           in (if all_data = [] then empty_frame
               else \<lparr>frame_columns = [''Study ID'', ''Hours'', ''Sheet''],
                     frame_rows = concat all_data\<rparr>,
               length all_data))
      | Some _ \<Rightarrow> (empty_frame, 0))"

text \<open>Lines 142 to 153.\<close>

definition load_all_data :: "directory \<Rightarrow> detail_row frame" where
  "load_all_data dir =
     (let employees = get_employee_files dir
      in if employees = [] then empty_frame
         else
           let dfs = filter (\<lambda>df. df \<noteq> [])
                 (map (\<lambda>e. map (with_employee e) (frame_rows (fst (load_employee_data dir e))))
                    employees)
           in if dfs = [] then empty_frame
              else \<lparr>frame_columns = [''Study ID'', ''Hours'', ''Sheet'', ''Employee''],
                    frame_rows = concat dfs\<rparr>)"

section \<open>Report generation\<close>

text \<open>
  A pivot table: row labels, column labels and the values row by row.
  Line 400 groups by study and employee, both in ascending order, sums the hours of each
  group and fills a combination without rows with 0.
\<close>

record pivot =
  pv_index :: "string list"
  pv_columns :: "string list"
  pv_values :: "int list list"

definition group_hours :: "detail_row list \<Rightarrow> string \<Rightarrow> string \<Rightarrow> int" where
  "group_hours full s e =
     sum_list (map d_hours (filter (\<lambda>r. d_study_id r = s \<and> d_employee r = e) full))"

definition pivot_table :: "detail_row list \<Rightarrow> pivot" where
  "pivot_table full =
     (let studies = sorted_list_of_set (set (map d_study_id full));
          emps = sorted_list_of_set (set (map d_employee full))
      in \<lparr>pv_index = studies, pv_columns = emps,
          pv_values = map (\<lambda>s. map (group_hours full s) emps) studies\<rparr>)"

fun index_of :: "'a \<Rightarrow> 'a list \<Rightarrow> nat" where
  "index_of x [] = 0"
| "index_of x (y # ys) = (if x = y then 0 else Suc (index_of x ys))"

text \<open>
  \<^verbatim>\<open>pivot[label] = values\<close> replaces the column with that label, or appends a new one;
  \<^verbatim>\<open>pivot.loc[label] = values\<close> does the same for a row.
\<close>

definition assign_col :: "pivot \<Rightarrow> string \<Rightarrow> int list \<Rightarrow> pivot" where
  "assign_col pv label vals =
     (if label \<in> set (pv_columns pv)
      then pv\<lparr>pv_values :=
             map (\<lambda>rv. (fst rv)[index_of label (pv_columns pv) := snd rv]) (zip (pv_values pv) vals)\<rparr>
      else pv\<lparr>pv_columns := pv_columns pv @ [label],
              pv_values := map (\<lambda>rv. fst rv @ [snd rv]) (zip (pv_values pv) vals)\<rparr>)"

definition assign_row :: "pivot \<Rightarrow> string \<Rightarrow> int list \<Rightarrow> pivot" where
  "assign_row pv label vals =
     (if label \<in> set (pv_index pv)
      then pv\<lparr>pv_values := (pv_values pv)[index_of label (pv_index pv) := vals]\<rparr>
      else pv\<lparr>pv_index := pv_index pv @ [label], pv_values := pv_values pv @ [vals]\<rparr>)"

definition row_sums :: "pivot \<Rightarrow> int list" where
  "row_sums pv = map sum_list (pv_values pv)"

definition col_sums :: "pivot \<Rightarrow> int list" where
  "col_sums pv =
     map (\<lambda>j. sum_list (map (\<lambda>row. row ! j) (pv_values pv))) [0..<length (pv_columns pv)]"

text \<open>Lines 400 to 402.\<close>

definition overall_summary :: "detail_row list \<Rightarrow> pivot" where
  "overall_summary full =
     (let pivot = pivot_table full;
          pivot = assign_col pivot ''Grand Total'' (row_sums pivot)
      in assign_row pivot ''Total per Employee'' (col_sums pivot))"

text \<open>
  Lines 383 to 392: the per-study totals of one employee, in ascending study order, and
  the sheet built from them. The \<^verbatim>\<open>%\<close> column is modelled by the quotient itself; its
  rounding to two places and its rendering as text are floating-point operations.
\<close>

record summary_row =
  account :: string
  study_hours :: int
  total_hours :: int
  percent :: rat

datatype sheet_body =
  Notice string | Summary "summary_row list" | Overall pivot

definition study_totals :: "effort_row list \<Rightarrow> (string \<times> int) list" where
  "study_totals df =
     map (\<lambda>s. (s, sum_list (map hours (filter (\<lambda>r. study_id r = s) df))))
       (sorted_list_of_set (set (map study_id df)))"

text \<open>
  One pass of the loop of lines 372 to 396: the sheet created for the employee, and the
  rows appended to \<^verbatim>\<open>all_details\<close>, if any.
\<close>

definition employee_sheet ::
  "directory \<Rightarrow> string \<Rightarrow> (string \<times> sheet_body) \<times> detail_row list option" where
  "employee_sheet dir emp =
     (let df = frame_rows (fst (load_employee_data dir emp))
      in if df = [] then ((take 31 emp, Notice ''No data found or file unreadable''), None)
         else
           let df_copy = map (with_employee emp) df;
               summary = study_totals df;
               total = sum_list (map snd summary)
           in if total = 0 then ((take 31 emp, Notice ''No hours recorded''), Some df_copy)
              else
                ((take 31 emp,
                  Summary (map (\<lambda>sh. \<lparr>account = fst sh, study_hours = snd sh, total_hours = total,
                                       percent = of_int (snd sh) / of_int total * 100\<rparr>) summary)),
                 Some df_copy))"

text \<open>Line 357: \<^verbatim>\<open>datetime.now().strftime("%Y%m%d_%H%M%S")\<close>.\<close>

record datetime =
  year :: nat
  month :: nat
  day :: nat
  hour :: nat
  minute :: nat
  second :: nat

definition pad2 :: "nat \<Rightarrow> string" where
  "pad2 n = (if n < 10 then CHR ''0'' # show_nat n else show_nat n)"

definition strftime_stamp :: "datetime \<Rightarrow> string" where
  "strftime_stamp now =
     show_nat (year now) @ pad2 (month now) @ pad2 (day now) @ ''_'' @
     pad2 (hour now) @ pad2 (minute now) @ pad2 (second now)"

text \<open>Lines 360 to 366.\<close>

definition report_prefix :: "string list \<Rightarrow> string" where
  "report_prefix selected = (case selected of [e] \<Rightarrow> e | _ \<Rightarrow> ''Effort'')"

record report =
  excel_path :: string
  csv_path :: string
  worksheets :: "(string \<times> sheet_body) list"
  csv_rows :: "detail_row list option"

text \<open>
  Lines 357 to 413, for the employees selected. The calls into the workbook and CSV
  libraries are taken to succeed. The CSV file is written only when \<^verbatim>\<open>all_details\<close> is
  not empty.
\<close>

definition report_for :: "directory \<Rightarrow> string list \<Rightarrow> datetime \<Rightarrow> report" where
  "report_for dir selected now =
     (let rdate = strftime_stamp now;
          prefix = report_prefix selected;
          passes = map (employee_sheet dir) selected;
          all_details = List.map_filter snd passes;
          wb = map fst passes @
               (if length selected > 1 \<and> all_details \<noteq> []
                then [(''Overall Summary'', Overall (overall_summary (concat all_details)))]
                else [])
      in \<lparr>excel_path = prefix @ ''Files_'' @ rdate @ ''.xlsx'',
          csv_path = prefix @ ''Data_'' @ rdate @ ''.csv'',
          worksheets = wb,
          csv_rows = (if all_details \<noteq> [] then Some (concat all_details) else None)\<rparr>)"




section \<open>The table file read for the charts\<close>

datatype py_error = IndexError

text \<open>
  Lines 425 and 426, and again 504 and 505, 567 and 568: the names in the directory that
  begin with \<^verbatim>\<open>EffortData_\<close> and end with \<^verbatim>\<open>.csv\<close>, in descending order, and the first
  of them.
\<close>

definition csv_files :: "string list \<Rightarrow> string list" where
  "csv_files listing =
     rev (sort (filter (\<lambda>f. startswith f ''EffortData_'' \<and> endswith f ''.csv'') listing))"

definition latest_csv :: "string list \<Rightarrow> py_error + string" where
  "latest_csv listing = (case csv_files listing of [] \<Rightarrow> Inl IndexError | f # fs \<Rightarrow> Inr f)"

section \<open>The specification's wording, and sample inputs\<close>

text \<open>
  The specification's pattern for a study identifier: \<^verbatim>\<open>^STUDY\d+$\<close>, case-insensitive,
  and, for the choice of the study column, applied to the trimmed text.
\<close>

definition matches_study_ci :: "string \<Rightarrow> bool" where
  "matches_study_ci s = fullmatch_word_digits ''study'' (str_lower s)"

definition is_space :: "char \<Rightarrow> bool" where
  "is_space c = (c \<in> set [CHR '' '', CHR 0x09, CHR 0x0A, CHR 0x0B, CHR 0x0C, CHR 0x0D])"

definition str_strip :: "string \<Rightarrow> string" where
  "str_strip s = rev (dropWhile is_space (rev (dropWhile is_space s)))"

definition spec_study_cell :: "cell \<Rightarrow> bool" where
  "spec_study_cell c = matches_study_ci (str_strip (astype_str c))"





definition titled_sheet :: grid where
  "titled_sheet =
     [[CStr ''Timesheet''],
      [CStr ''Study ID'', CMissing, CMissing],
      [CStr ''STUDY1'', CNum 3, CNum 4],
      [CStr ''total'', CNum 3, CNum 4]]"

definition study_above_header_sheet :: grid where
  "study_above_header_sheet =
     [[CStr ''STUDY1'', CNum 5],
      [CStr ''Study ID'', CStr ''Hours''],
      [CStr ''STUDY2'', CNum 3]]"

definition example_dir :: directory where
  "example_dir =
     [(''known_employees.json'',
         JsonFile (JObj [(''employees'', JArr [JStr ''bob'', JStr ''erin'', JStr ''alice''])])),
      (''bob.xlsx'',
         Workbook [(''Week 1'', [[CStr ''STUDY1'', CNum 20], [CStr ''STUDY2'', CNum 5]])]),
      (''dave.xlsx'', Workbook [(''Week 1'', [[CStr ''STUDY3'', CNum 0]])]),
      (''alice.xlsx'', Workbook [(''Week 1'', [[CStr ''STUDY1'', CNum 10]])])]"

definition example_now :: datetime where
  "example_now = \<lparr>year = 2026, month = 1, day = 5, hour = 9, minute = 30, second = 7\<rparr>"



definition no_study_dir :: directory where
  "no_study_dir =
     [(''known_employees.json'', JsonFile (JObj [(''employees'', JArr [JStr ''carol''])])),
      (''carol.xlsx'', Workbook [(''Week 1'', [[CStr ''nothing'']])])]"

section \<open>Properties of the sheet extractor\<close>

lemma extract_mem:
  "e \<in> set (extract_study_hours_from_sheet g nm) \<longleftrightarrow>
     (\<not> df_empty g \<and>
      (\<exists>c r. find_study_col (ncols g) (drop (data_start g) g) = Some c \<and>
             r \<in> set (drop (data_start g) g) \<and> is_study_id (cell_at r c) \<and>
             e = emit_row g c nm r))"
proof (cases "find_study_col (ncols g) (drop (data_start g) g)")
  case None
  then show ?thesis
    by (simp add: extract_study_hours_from_sheet_def)
next
  case (Some c)
  then show ?thesis
    by (auto simp: extract_study_hours_from_sheet_def)
qed





lemma scan_rows_header:
  "h < length g \<Longrightarrow> has_header_token (g ! h) \<Longrightarrow>
   \<forall>i<h. \<not> has_header_token (g ! i) \<and> \<not> has_study_cell (g ! i) \<Longrightarrow>
   scan_rows g k = Some (k + Suc h)"
proof (induction g arbitrary: h k)
  case Nil
  then show ?case by simp
next
  case (Cons r rs)
  show ?case
  proof (cases h)
    case 0
    with Cons.prems show ?thesis by simp
  next
    case (Suc h')
    from Cons.prems Suc have r: "\<not> has_header_token r" "\<not> has_study_cell r"
      by auto
    have "scan_rows rs (k + 1) = Some (k + 1 + Suc h')"
    proof (rule Cons.IH)
      show "h' < length rs" using Cons.prems Suc by simp
      show "has_header_token (rs ! h')" using Cons.prems Suc by simp
      show "\<forall>i<h'. \<not> has_header_token (rs ! i) \<and> \<not> has_study_cell (rs ! i)"
        using Cons.prems(3) Suc by auto
    qed
    with r Suc show ?thesis by simp
  qed
qed

lemma find_upt_Some:
  "find P [0..<n] = Some j \<longleftrightarrow> (j < n \<and> P j \<and> (\<forall>i<j. \<not> P i))"
  by (auto simp: find_Some_iff)

lemma find_upt_None:
  "find P [0..<n] = None \<longleftrightarrow> (\<forall>j<n. \<not> P j)"
  by (auto simp: find_None_iff)








text \<open>
  C3, as amended. The study column is the first column, from the left, of the data
  region with at least one cell whose text, as it stands, fully matches \<^verbatim>\<open>STUDY\d+\<close>
  in upper case; when no column has such a cell the extractor returns no rows.
\<close>

theorem study_col_first_exact_match:
  "(find_study_col (ncols g) d = Some j \<longleftrightarrow>
      j < ncols g \<and>
      (\<exists>r \<in> set d. fullmatch_word_digits ''STUDY'' (astype_str (cell_at r j))) \<and>
      (\<forall>i<j. \<not> (\<exists>r \<in> set d. fullmatch_word_digits ''STUDY'' (astype_str (cell_at r i))))) \<and>
   (find_study_col (ncols g) d = None \<longleftrightarrow>
      (\<forall>j<ncols g. \<not> (\<exists>r \<in> set d. fullmatch_word_digits ''STUDY'' (astype_str (cell_at r j))))) \<and>
   (find_study_col (ncols g) (drop (data_start g) g) = None \<longrightarrow>
      extract_study_hours_from_sheet g nm = [])"
proof -
  have c: "col_has_study d k \<longleftrightarrow>
      (\<exists>r \<in> set d. fullmatch_word_digits ''STUDY'' (astype_str (cell_at r k)))" for k
    by (simp add: col_has_study_def is_study_id_def list_ex_iff)
  have "find_study_col (ncols g) (drop (data_start g) g) = None \<Longrightarrow>
      extract_study_hours_from_sheet g nm = []"
    by (simp add: extract_study_hours_from_sheet_def)
  then show ?thesis
    unfolding find_study_col_def find_upt_Some find_upt_None c by blast
qed

theorem study_col_first_exact_match_witness:
  "find_study_col (ncols titled_sheet) (drop (data_start titled_sheet) titled_sheet) = Some 0 \<and>
   (0::nat) < ncols titled_sheet \<and>
   (\<exists>r \<in> set (drop (data_start titled_sheet) titled_sheet).
      fullmatch_word_digits ''STUDY'' (astype_str (cell_at r 0))) \<and>
   find_study_col (ncols [[CStr ''study7'']])
     (drop (data_start [[CStr ''study7'']]) [[CStr ''study7'']]) = None \<and>
   extract_study_hours_from_sheet [[CStr ''study7'']] ''S'' = []"
proof -
  have a: "find_study_col (ncols titled_sheet) (drop (data_start titled_sheet) titled_sheet) = Some 0"
    by code_simp
  have b: "find_study_col (ncols [[CStr ''study7'']])
      (drop (data_start [[CStr ''study7'']]) [[CStr ''study7'']]) = None"
    by code_simp
  from study_col_first_exact_match
         [of titled_sheet "drop (data_start titled_sheet) titled_sheet" 0] a
       study_col_first_exact_match
         [of "[[CStr ''study7'']]" "drop (data_start [[CStr ''study7'']]) [[CStr ''study7'']]"
             0 "''S''"] b
  show ?thesis by blast
qed

text \<open>
  C3 as stated fails: the cell \<^verbatim>\<open>" study7 "\<close> matches the pattern once trimmed and
  compared without regard to case, yet its column is not selected and nothing is emitted.
\<close>

theorem study_col_padded_lowercase_counterexample:
  "spec_study_cell (CStr '' study7 '') \<and>
   find_study_col (ncols [[CStr '' study7 '']])
     (drop (data_start [[CStr '' study7 '']]) [[CStr '' study7 '']]) = None \<and>
   extract_study_hours_from_sheet [[CStr '' study7 '']] ''S'' = []"
  by code_simp

text \<open>
  C4, as amended. When row h holds the token \<^verbatim>\<open>study id\<close> and no row above it holds
  the token or a cell matching \<^verbatim>\<open>^study\d+$\<close>, the data region starts at row h + 1 and
  every emitted row comes from a row below row h.
\<close>

theorem header_token_data_start:
  assumes "h < length g" and "has_header_token (g ! h)"
    and "\<forall>i<h. \<not> has_header_token (g ! i) \<and> \<not> has_study_cell (g ! i)"
  shows "data_start g = Suc h \<and>
         (\<forall>e \<in> set (extract_study_hours_from_sheet g nm).
            \<exists>i c. h < i \<and> i < length g \<and>
              find_study_col (ncols g) (drop (Suc h) g) = Some c \<and>
              is_study_id (cell_at (g ! i) c) \<and>
              e = emit_row g c nm (g ! i))"
proof -
  have ds: "data_start g = Suc h"
    using scan_rows_header [OF assms, of 0] by (simp add: data_start_def)
  have "\<exists>i c. h < i \<and> i < length g \<and>
              find_study_col (ncols g) (drop (Suc h) g) = Some c \<and>
              is_study_id (cell_at (g ! i) c) \<and>
              e = emit_row g c nm (g ! i)"
    if "e \<in> set (extract_study_hours_from_sheet g nm)" for e
  proof -
    from that obtain c r where c: "find_study_col (ncols g) (drop (Suc h) g) = Some c"
      and r: "r \<in> set (drop (Suc h) g)" and v: "is_study_id (cell_at r c)"
      and e: "e = emit_row g c nm r"
      unfolding extract_mem ds by blast
    from r obtain k where k: "k < length (drop (Suc h) g)" and rk: "r = drop (Suc h) g ! k"
      by (auto simp: in_set_conv_nth)
    have "r = g ! (Suc h + k)" using k rk by simp
    moreover have "Suc h + k < length g" using k by simp
    ultimately show ?thesis using c v e
      by (intro exI [of _ "Suc h + k"] exI [of _ c]) simp
  qed
  with ds show ?thesis by blast
qed

theorem header_token_data_start_witness:
  "(1::nat) < length titled_sheet \<and> has_header_token (titled_sheet ! 1) \<and>
   \<not> has_header_token (titled_sheet ! 0) \<and> \<not> has_study_cell (titled_sheet ! 0) \<and>
   data_start titled_sheet = Suc 1 \<and>
   \<lparr>study_id = ''STUDY1'', hours = 7, sheet = ''S''\<rparr>
      \<in> set (extract_study_hours_from_sheet titled_sheet ''S'') \<and>
   (\<exists>i c. 1 < i \<and> i < length titled_sheet \<and>
      \<lparr>study_id = ''STUDY1'', hours = 7, sheet = ''S''\<rparr> =
        emit_row titled_sheet c ''S'' (titled_sheet ! i))"
proof -
  have a: "(1::nat) < length titled_sheet" by code_simp
  have b: "has_header_token (titled_sheet ! 1)" by code_simp
  have z: "\<not> has_header_token (titled_sheet ! 0) \<and> \<not> has_study_cell (titled_sheet ! 0)"
    by code_simp
  then have c: "\<forall>i<1. \<not> has_header_token (titled_sheet ! i) \<and> \<not> has_study_cell (titled_sheet ! i)"
    by simp
  have m: "\<lparr>study_id = ''STUDY1'', hours = 7, sheet = ''S''\<rparr>
      \<in> set (extract_study_hours_from_sheet titled_sheet ''S'')"
    by code_simp
  from header_token_data_start [OF a b c, of "''S''"] a b z m show ?thesis
    by fastforce
qed

text \<open>
  C4 as stated fails: a study identifier in a row above the header row ends the scan
  there, so the data region starts at that row and the row is emitted.
\<close>

theorem header_below_study_row_counterexample:
  "has_header_token (study_above_header_sheet ! 1) \<and>
   \<not> has_header_token (study_above_header_sheet ! 0) \<and>
   data_start study_above_header_sheet = 0 \<and>
   extract_study_hours_from_sheet study_above_header_sheet ''S'' =
     [emit_row study_above_header_sheet 0 ''S'' (study_above_header_sheet ! 0),
      emit_row study_above_header_sheet 0 ''S'' (study_above_header_sheet ! 2)] \<and>
   study_id (emit_row study_above_header_sheet 0 ''S'' (study_above_header_sheet ! 0)) = ''STUDY1''"
  by code_simp

section \<open>Properties of the registry and the aggregator\<close>

lemma py_set_strs: "py_set (JArr (map JStr ys)) = Some (KStr ` set ys)"
proof -
  have "list_all (\<lambda>x. to_key x \<noteq> None) (map JStr ys)"
    by (simp add: list_all_iff)
  moreover have "map (\<lambda>x. the (to_key x)) (map JStr ys) = map KStr ys"
    by simp
  ultimately show ?thesis
    by (simp del: map_map)
qed

text \<open>
  C7. For every finite set of identifiers, given as the elements of a list in any order,
  loading after saving returns exactly that set, the saved file does not depend on the
  order, and the JSON object written lists the identifiers in strictly ascending order
  under the key \<^verbatim>\<open>employees\<close>.
\<close>

theorem registry_roundtrip:
  "load_known_employees (save_known_employees (set xs) dir) = KStr ` set xs \<and>
   (\<exists>ys. map_of (save_known_employees (set xs) dir) STATE_FILE =
            Some (JsonFile (JObj [(''employees'', JArr (map JStr ys))])) \<and>
         sorted_wrt (<) ys \<and> set ys = set xs) \<and>
   (set xs = set xs' \<longrightarrow>
      save_known_employees (set xs) dir = save_known_employees (set xs') dir)"
proof (intro conjI impI)
  show "load_known_employees (save_known_employees (set xs) dir) = KStr ` set xs"
    unfolding load_known_employees_def save_known_employees_def
    by (simp add: py_set_strs del: py_set.simps)
  show "\<exists>ys. map_of (save_known_employees (set xs) dir) STATE_FILE =
            Some (JsonFile (JObj [(''employees'', JArr (map JStr ys))])) \<and>
         sorted_wrt (<) ys \<and> set ys = set xs"
    unfolding save_known_employees_def
    by (intro exI [of _ "sorted_list_of_set (set xs)"]) simp
  show "save_known_employees (set xs) dir = save_known_employees (set xs') dir"
    if "set xs = set xs'"
    using that by simp
qed

theorem registry_roundtrip_witness:
  "load_known_employees (save_known_employees (set [''bob'', ''alice'']) example_dir) =
     KStr ` set [''bob'', ''alice''] \<and>
   set [''bob'', ''alice''] = set [''alice'', ''bob'', ''alice''] \<and>
   save_known_employees (set [''bob'', ''alice'']) example_dir =
     save_known_employees (set [''alice'', ''bob'', ''alice'']) example_dir \<and>
   map_of (save_known_employees (set [''bob'', ''alice'']) example_dir) STATE_FILE =
     Some (JsonFile (JObj [(''employees'', JArr [JStr ''alice'', JStr ''bob''])]))"
proof -
  have s: "set [''bob'', ''alice''] = set [''alice'', ''bob'', ''alice'']"
    by auto
  have f: "map_of (save_known_employees (set [''bob'', ''alice'']) example_dir) STATE_FILE =
     Some (JsonFile (JObj [(''employees'', JArr [JStr ''alice'', JStr ''bob''])]))"
    by code_simp
  from registry_roundtrip [of "[''bob'', ''alice'']" example_dir "[''alice'', ''bob'', ''alice'']"] s f
  show ?thesis by blast
qed

lemma get_employee_files_set:
  "set (get_employee_files dir) =
     {s \<in> get_current_files dir. KStr s \<in> load_known_employees dir}"
proof -
  have "finite (get_current_files dir)"
    by (simp add: get_current_files_def)
  then show ?thesis
    unfolding get_employee_files_def by auto
qed

lemma concat_nonempty: "concat (filter (\<lambda>xs. xs \<noteq> []) xss) = concat xss"
  by (induction xss) auto

text \<open>
  C5, as amended. The aggregator concatenates the rows of each employee, stamped with the
  identifier, in ascending order of the identifiers that are both in the registry and
  derivable from the files present; when there is no such row the table it returns has no
  rows and no columns.
\<close>

theorem load_all_data_concat_ascending:
  "load_all_data dir =
     (let rows = concat (map (\<lambda>e. map (with_employee e) (frame_rows (fst (load_employee_data dir e))))
                   (get_employee_files dir))
      in if rows = [] then \<lparr>frame_columns = [], frame_rows = []\<rparr>
         else \<lparr>frame_columns = [''Study ID'', ''Hours'', ''Sheet'', ''Employee''],
               frame_rows = rows\<rparr>) \<and>
   sorted_wrt (<) (get_employee_files dir) \<and>
   set (get_employee_files dir) =
     {s \<in> get_current_files dir. KStr s \<in> load_known_employees dir}"
proof (intro conjI)
  let ?per = "map (\<lambda>e. map (with_employee e) (frame_rows (fst (load_employee_data dir e))))
                   (get_employee_files dir)"
  have a: "concat (filter (\<lambda>df. df \<noteq> []) ?per) = concat ?per"
    by (rule concat_nonempty)
  have b: "filter (\<lambda>df. df \<noteq> []) ?per = [] \<longleftrightarrow> concat ?per = []"
    by (auto simp: filter_empty_conv)
  show "load_all_data dir =
     (let rows = concat ?per
      in if rows = [] then \<lparr>frame_columns = [], frame_rows = []\<rparr>
         else \<lparr>frame_columns = [''Study ID'', ''Hours'', ''Sheet'', ''Employee''],
               frame_rows = rows\<rparr>)"
  proof (cases "get_employee_files dir = []")
    case True
    then show ?thesis by (simp add: load_all_data_def empty_frame_def)
  next
    case False
    then show ?thesis
      unfolding load_all_data_def Let_def a b by (simp add: empty_frame_def)
  qed
  show "sorted_wrt (<) (get_employee_files dir)"
    by (simp add: get_employee_files_def)
  show "set (get_employee_files dir) =
     {s \<in> get_current_files dir. KStr s \<in> load_known_employees dir}"
    by (rule get_employee_files_set)
qed

theorem load_all_data_concat_ascending_witness:
  "load_all_data example_dir =
     \<lparr>frame_columns = [''Study ID'', ''Hours'', ''Sheet'', ''Employee''],
      frame_rows =
        [\<lparr>d_study_id = ''STUDY1'', d_hours = 10, d_sheet = ''Week 1'', d_employee = ''alice''\<rparr>,
         \<lparr>d_study_id = ''STUDY1'', d_hours = 20, d_sheet = ''Week 1'', d_employee = ''bob''\<rparr>,
         \<lparr>d_study_id = ''STUDY2'', d_hours = 5, d_sheet = ''Week 1'', d_employee = ''bob''\<rparr>]\<rparr> \<and>
   sorted_wrt (<) (get_employee_files example_dir) \<and>
   get_employee_files example_dir = [''alice'', ''bob'']"
proof -
  have a: "load_all_data example_dir =
     \<lparr>frame_columns = [''Study ID'', ''Hours'', ''Sheet'', ''Employee''],
      frame_rows =
        [\<lparr>d_study_id = ''STUDY1'', d_hours = 10, d_sheet = ''Week 1'', d_employee = ''alice''\<rparr>,
         \<lparr>d_study_id = ''STUDY1'', d_hours = 20, d_sheet = ''Week 1'', d_employee = ''bob''\<rparr>,
         \<lparr>d_study_id = ''STUDY2'', d_hours = 5, d_sheet = ''Week 1'', d_employee = ''bob''\<rparr>]\<rparr>"
    by code_simp
  have b: "get_employee_files example_dir = [''alice'', ''bob'']"
    by code_simp
  from load_all_data_concat_ascending [of example_dir] a b show ?thesis by blast
qed

text \<open>
  C5 as stated fails: with an empty directory, and with a tracked employee whose
  workbook yields no row, the table returned carries no column at all.
\<close>

theorem load_all_data_empty_no_columns_counterexample:
  "load_all_data [] = \<lparr>frame_columns = [], frame_rows = []\<rparr> \<and>
   frame_columns (load_all_data []) \<noteq> [''Study ID'', ''Hours'', ''Sheet'', ''Employee''] \<and>
   get_employee_files no_study_dir = [''carol''] \<and>
   load_all_data no_study_dir = \<lparr>frame_columns = [], frame_rows = []\<rparr>"
  by code_simp

section \<open>Properties of report generation\<close>














lemma study_totals_sum: "sum_list (map snd (study_totals df)) = sum_list (map hours df)"
proof -
  let ?K = "set (map study_id df)"
  have g: "finite K \<Longrightarrow> study_id ` set xs \<subseteq> K \<Longrightarrow>
      (\<Sum>s \<in> K. sum_list (map hours (filter (\<lambda>r. study_id r = s) xs))) = sum_list (map hours xs)"
    for K and xs :: "effort_row list"
  proof (induction xs)
    case Nil
    then show ?case by simp
  next
    case (Cons x xs)
    have "(\<Sum>s \<in> K. sum_list (map hours (filter (\<lambda>r. study_id r = s) (x # xs)))) =
        (\<Sum>s \<in> K. (if study_id x = s then hours x else 0) +
                    sum_list (map hours (filter (\<lambda>r. study_id r = s) xs)))"
      by (intro sum.cong) auto
    also have "\<dots> = (\<Sum>s \<in> K. if study_id x = s then hours x else 0) +
        (\<Sum>s \<in> K. sum_list (map hours (filter (\<lambda>r. study_id r = s) xs)))"
      by (rule sum.distrib)
    also have "(\<Sum>s \<in> K. if study_id x = s then hours x else 0) = hours x"
      using Cons.prems by (simp add: sum.delta')
    also have "(\<Sum>s \<in> K. sum_list (map hours (filter (\<lambda>r. study_id r = s) xs))) =
        sum_list (map hours xs)"
      using Cons.prems by (intro Cons.IH) auto
    finally show ?case by simp
  qed
  have "sum_list (map snd (study_totals df)) =
      (\<Sum>s \<in> ?K. sum_list (map hours (filter (\<lambda>r. study_id r = s) df)))"
    unfolding study_totals_def
    by (simp add: sum_list_distinct_conv_sum_set comp_def)
  also have "\<dots> = sum_list (map hours df)"
    by (rule g) auto
  finally show ?thesis .
qed

lemma employee_sheet_Summary:
  assumes "fst (employee_sheet dir emp) = (t, Summary rows)" and "r \<in> set rows"
  shows "total_hours r = sum_list (map hours (frame_rows (fst (load_employee_data dir emp))))"
    and "total_hours r \<noteq> 0"
    and "percent r = of_int (study_hours r) / of_int (total_hours r) * 100"
  using assms
  by (auto simp: employee_sheet_def Let_def study_totals_sum split: if_splits)

lemma employee_sheet_no_hours:
  assumes "frame_rows (fst (load_employee_data dir emp)) \<noteq> []"
    and "sum_list (map hours (frame_rows (fst (load_employee_data dir emp)))) = 0"
  shows "fst (employee_sheet dir emp) = (take 31 emp, Notice ''No hours recorded'')"
  using assms by (simp add: employee_sheet_def Let_def study_totals_sum)

lemma worksheets_Summary:
  assumes "(t, Summary rows) \<in> set (worksheets (report_for dir selected now))"
  shows "\<exists>emp \<in> set selected. fst (employee_sheet dir emp) = (t, Summary rows)"
  using assms by (auto simp: report_for_def Let_def split: if_splits)

text \<open>
  C10. Every row of a summary sheet of the report, that is of a sheet with the \<^verbatim>\<open>%\<close>
  column, carries a total that is not 0, the total of the Hours of one selected employee,
  and its percentage is the quotient by that total; an employee whose rows have Hours
  adding up to 0 gets the sheet saying that no hours are recorded instead.
\<close>

theorem summary_divisor_nonzero:
  assumes "(t, Summary rows) \<in> set (worksheets (report_for dir selected now))"
    and "r \<in> set rows"
  shows "total_hours r \<noteq> 0 \<and>
         percent r = of_int (study_hours r) / of_int (total_hours r) * 100 \<and>
         (\<exists>emp \<in> set selected.
            total_hours r = sum_list (map hours (frame_rows (fst (load_employee_data dir emp))))) \<and>
         (\<forall>emp. frame_rows (fst (load_employee_data dir emp)) \<noteq> [] \<and>
                sum_list (map hours (frame_rows (fst (load_employee_data dir emp)))) = 0 \<longrightarrow>
                fst (employee_sheet dir emp) = (take 31 emp, Notice ''No hours recorded''))"
proof -
  from worksheets_Summary [OF assms(1)] obtain emp
    where emp: "emp \<in> set selected" and s: "fst (employee_sheet dir emp) = (t, Summary rows)"
    by blast
  from employee_sheet_Summary [OF s assms(2)] emp employee_sheet_no_hours
  show ?thesis by blast
qed

theorem summary_divisor_nonzero_witness:
  "(''bob'',
    Summary
      [\<lparr>account = ''STUDY1'', study_hours = 20, total_hours = 25, percent = 80\<rparr>,
       \<lparr>account = ''STUDY2'', study_hours = 5, total_hours = 25, percent = 20\<rparr>])
     \<in> set (worksheets (report_for example_dir [''alice'', ''bob'', ''dave''] example_now)) \<and>
   total_hours \<lparr>account = ''STUDY2'', study_hours = 5, total_hours = 25, percent = 20\<rparr> \<noteq> 0 \<and>
   frame_rows (fst (load_employee_data example_dir ''dave'')) \<noteq> [] \<and>
   sum_list (map hours (frame_rows (fst (load_employee_data example_dir ''dave'')))) = 0 \<and>
   fst (employee_sheet example_dir ''dave'') = (take 31 ''dave'', Notice ''No hours recorded'')"
proof -
  have a: "(''bob'',
    Summary
      [\<lparr>account = ''STUDY1'', study_hours = 20, total_hours = 25, percent = 80\<rparr>,
       \<lparr>account = ''STUDY2'', study_hours = 5, total_hours = 25, percent = 20\<rparr>])
     \<in> set (worksheets (report_for example_dir [''alice'', ''bob'', ''dave''] example_now))"
    by code_simp
  have b: "\<lparr>account = ''STUDY2'', study_hours = 5, total_hours = 25, percent = 20\<rparr>
     \<in> set [\<lparr>account = ''STUDY1'', study_hours = 20, total_hours = 25, percent = 80\<rparr>,
             \<lparr>account = ''STUDY2'', study_hours = 5, total_hours = 25, percent = 20\<rparr>]"
    by simp
  have c: "frame_rows (fst (load_employee_data example_dir ''dave'')) \<noteq> []"
    by code_simp
  have d: "sum_list (map hours (frame_rows (fst (load_employee_data example_dir ''dave'')))) = 0"
    by code_simp
  from summary_divisor_nonzero [OF a b] a c d show ?thesis
    by blast
qed












section \<open>The table file chosen for the charts\<close>

text \<open>
  C9. The claim is that the newest table file is loaded whatever its prefix. With a
  table file of all employees from 2025 and a newer one of the single employee alice
  from 2026 in the directory, the older file is the one loaded; with only the file of
  alice there, indexing the empty list raises \<^verbatim>\<open>IndexError\<close>.
\<close>

theorem latest_csv_skips_employee_prefix:
  "latest_csv [''EffortData_20250101_000000.csv'', ''aliceData_20260101_000000.csv''] =
     Inr ''EffortData_20250101_000000.csv'' \<and>
   latest_csv [''aliceData_20260101_000000.csv''] = Inl IndexError"
  by code_simp

end
